theory Spec2Isabelle
  imports Main "HOL-Library.Multiset"
begin

section \<open>Data model\<close>

text \<open>
  The source file holds the Post schema followed by two copies of the Express server;
  the second copy (the one with the read, delete and update routes for posts) is the
  one embedded here. Mongoose, bcryptjs, jsonwebtoken and express-validator are
  libraries outside the repository: each is represented by a small executable model
  whose assumptions are stated where it is defined.

  Identifiers are the string form of a document's \<open>_id\<close>, which is what
  \<open>user.id\<close>, \<open>req.user.id\<close> and \<open>post.user.toString()\<close> yield.
\<close>

type_synonym objectid = string

text \<open>
  A bcrypt hash is kept symbolic: it records the salt and the plaintext it was made
  from, and \<open>bcrypt.compare\<close> succeeds exactly on that plaintext.
\<close>

datatype pwhash = Bcrypt string string

text \<open>
  Modelled from the spec: the User schema (\<open>./models/User\<close>) is not among the
  sources; a user record has an identity, a name, an email and a hashed password.
\<close>

record user =
  user_id :: objectid
  user_name :: string
  user_email :: string
  user_password :: pwhash

text \<open>
  \<open>PostSchema\<close>: \<open>user\<close> is an optional reference, \<open>body\<close> and \<open>title\<close> are
  required strings, \<open>date\<close> defaults to \<open>Date.now\<close> (milliseconds).
\<close>

record post =
  post_id :: objectid
  post_user :: "objectid option"
  post_body :: string
  post_title :: string
  post_date :: nat

text \<open>
  The document store. \<open>connected\<close> is False when a store call rejects (lost
  connection, driver failure): every awaited call then throws into the handler's
  \<open>catch\<close>.
\<close>

record db =
  users :: "user list"
  posts :: "post list"
  connected :: bool

datatype error = StoreError | CastError | ValidationError | TypeError | JwtError

text \<open>
  What a request needs from outside: the clock (\<open>Date.now()\<close>, in milliseconds), the
  identifier Mongoose generates for a new document, the salt of \<open>bcrypt.genSalt\<close>, and
  \<open>config.get("jwtSecret")\<close>.
\<close>

record env =
  now_ms :: nat
  new_id :: objectid
  salt :: string
  jwtSecret :: string

subsection \<open>Session tokens\<close>

text \<open>
  A signed token is kept symbolic: the payload's user id, the issue and expiry times in
  seconds, and the key that signed it.
\<close>

record token =
  tok_user_id :: objectid
  tok_iat :: nat
  tok_exp :: nat
  tok_key :: string

subsection \<open>Responses\<close>

text \<open>
  One entry of an \<open>errors\<close> array: the message and, for an express-validator error, the
  name of the field (\<open>param\<close>).
\<close>

datatype err_item = Err string "string option"

datatype body =
    Text string
  | Json_msg string
  | Json_errors "err_item list"
  | Json_post post
  | Json_posts "post list"
  | Json_token token

text \<open>
  \<open>Reply s b\<close> is a response with status \<open>s\<close> (\<open>res.json\<close> and \<open>res.send\<close> without
  \<open>res.status\<close> send 200); \<open>NoReply\<close> is a handler that ends without calling \<open>res\<close>.
\<close>

datatype reply = Reply nat body | NoReply

definition server_error :: reply where
  "server_error = Reply 500 (Text ''Server error'')"

fun status_of :: "reply \<Rightarrow> nat option" where
  "status_of (Reply s b) = Some s"
| "status_of NoReply = None"

section \<open>The store\<close>

subsection \<open>Casting an id\<close>

text \<open>
  \<open>Model.findById(id)\<close> first casts the id it is given to an ObjectId, and rejects when
  that fails. A string casts when it is 24 hexadecimal digits (upper or lower case), or
  when it is 12 characters long, which are then taken as the 12 bytes of the id. The
  string form of an ObjectId is 24 lower-case hexadecimal digits. Strings are ASCII.
\<close>

definition isHexDigit :: "char \<Rightarrow> bool" where
  "isHexDigit c = (c \<in> set ''0123456789abcdefABCDEF'')"

definition lower_hex :: "char \<Rightarrow> char" where
  "lower_hex c =
     (if c = CHR ''A'' then CHR ''a'' else if c = CHR ''B'' then CHR ''b''
      else if c = CHR ''C'' then CHR ''c'' else if c = CHR ''D'' then CHR ''d''
      else if c = CHR ''E'' then CHR ''e'' else if c = CHR ''F'' then CHR ''f''
      else c)"

definition hex_digit :: "nat \<Rightarrow> char" where
  "hex_digit n = ''0123456789abcdef'' ! (n mod 16)"

definition hex_byte :: "char \<Rightarrow> string" where
  "hex_byte c = [hex_digit ((of_char c :: nat) div 16), hex_digit (of_char c)]"

definition castObjectId :: "string \<Rightarrow> objectid option" where
  "castObjectId s =
     (if length s = 24 \<and> list_all isHexDigit s then Some (map lower_hex s)
      else if length s = 12 then Some (concat (map hex_byte s))
      else None)"

text \<open>The string form of a stored document's id.\<close>

definition canonical_id :: "string \<Rightarrow> bool" where
  "canonical_id s = (length s = 24 \<and> list_all (\<lambda>c. c \<in> set ''0123456789abcdef'') s)"

subsection \<open>Queries and writes\<close>

text \<open>
  \<open>Model.findById(id)\<close>: the document whose id is the ObjectId that \<open>id\<close> casts to, or
  null; a rejected promise when \<open>id\<close> does not cast. The ids of stored documents are
  string forms of ObjectIds, and such a string casts to itself (\<open>cast_canonical\<close>
  below), so an \<open>id\<close> equal to a stored one finds that document; the cast decides the
  remaining cases. On a store whose ids are all string forms of ObjectIds this is the
  same as casting first (\<open>Post_findById_cast_first\<close> below).
\<close>

definition Post_findById :: "db \<Rightarrow> string \<Rightarrow> error + post option" where
  "Post_findById d i =
     (if connected d then
        (case find (\<lambda>p. post_id p = i) (posts d) of
           Some p \<Rightarrow> Inr (Some p)
         | None \<Rightarrow>
             (case castObjectId i of
                None \<Rightarrow> Inl CastError
              | Some c \<Rightarrow> Inr (find (\<lambda>p. post_id p = c) (posts d))))
      else Inl StoreError)"

definition User_findById :: "db \<Rightarrow> string \<Rightarrow> error + user option" where
  "User_findById d i =
     (if connected d then
        (case find (\<lambda>u. user_id u = i) (users d) of
           Some u \<Rightarrow> Inr (Some u)
         | None \<Rightarrow>
             (case castObjectId i of
                None \<Rightarrow> Inl CastError
              | Some c \<Rightarrow> Inr (find (\<lambda>u. user_id u = c) (users d))))
      else Inl StoreError)"

text \<open>
  \<open>User.findOne({email: email})\<close>: the first user whose email equals the query value;
  an undefined query value equals no stored email.
\<close>

definition User_findOne :: "db \<Rightarrow> string option \<Rightarrow> error + user option" where
  "User_findOne d e =
     (if connected d then Inr (find (\<lambda>u. Some (user_email u) = e) (users d))
      else Inl StoreError)"

text \<open>\<open>Post.find().sort({date: -1})\<close>: every post, by date descending.\<close>

definition Post_find_sort_date_desc :: "db \<Rightarrow> error + post list" where
  "Post_find_sort_date_desc d =
     (if connected d then Inr (sort_key (\<lambda>p. - int (post_date p)) (posts d))
      else Inl StoreError)"

text \<open>
  \<open>doc.save()\<close> writes the document under its id: it replaces the stored document with
  that id, or adds the document when there is none.
\<close>

fun upsert_post :: "post \<Rightarrow> post list \<Rightarrow> post list" where
  "upsert_post p [] = [p]"
| "upsert_post p (q # qs) =
     (if post_id q = post_id p then p # qs else q # upsert_post p qs)"

text \<open>
  \<open>post.save()\<close> validates against \<open>PostSchema\<close> first: \<open>body\<close> and \<open>title\<close> are
  \<open>required\<close>, which an empty string does not satisfy.
\<close>

definition Post_save :: "db \<Rightarrow> post \<Rightarrow> error + db" where
  "Post_save d p =
     (if \<not> connected d then Inl StoreError
      else if post_body p = [] \<or> post_title p = [] then Inl ValidationError
      else Inr (d\<lparr>posts := upsert_post p (posts d)\<rparr>))"

definition Post_remove :: "db \<Rightarrow> post \<Rightarrow> error + db" where
  "Post_remove d p =
     (if connected d then Inr (d\<lparr>posts := filter (\<lambda>q. post_id q \<noteq> post_id p) (posts d)\<rparr>)
      else Inl StoreError)"

definition User_save :: "db \<Rightarrow> user \<Rightarrow> error + db" where
  "User_save d u =
     (if connected d then Inr (d\<lparr>users := users d @ [u]\<rparr>) else Inl StoreError)"

section \<open>Libraries\<close>

subsection \<open>express-validator\<close>

text \<open>
  A body field is a string or absent. The standard validators see an absent field as
  the empty string; \<open>exists()\<close> asks that the field is not undefined.

  The password of a login request is only asked to exist, so any JSON value reaches the
  handler: a string, null, a number, a boolean, or an array or object (\<open>JOther\<close>).
\<close>

datatype jsval = JStr string | JNull | JNum int | JBool bool | JOther

definition to_str :: "string option \<Rightarrow> string" where
  "to_str v = (case v of None \<Rightarrow> [] | Some s \<Rightarrow> s)"

definition not_isEmpty :: "string option \<Rightarrow> bool" where
  "not_isEmpty v = (to_str v \<noteq> [])"

definition isLength_min :: "nat \<Rightarrow> string option \<Rightarrow> bool" where
  "isLength_min n v = (n \<le> length (to_str v))"

definition exists_field :: "'a option \<Rightarrow> bool" where
  "exists_field v = (v \<noteq> None)"

text \<open>
  \<open>check(field, message)\<close> followed by one validator: an error entry when it fails.
\<close>

definition check :: "string \<Rightarrow> string \<Rightarrow> bool \<Rightarrow> err_item list" where
  "check field message ok = (if ok then [] else [Err message (Some field)])"

text \<open>
  \<open>isEmail\<close> is a parameter of the handlers that use it. This instance, used where a
  concrete one is needed, asks for an \<open>@\<close> with text on both sides.
\<close>

definition isEmail_at :: "string \<Rightarrow> bool" where
  "isEmail_at s =
     (takeWhile (\<lambda>c. c \<noteq> CHR ''@'') s \<noteq> [] \<and>
      1 < length (dropWhile (\<lambda>c. c \<noteq> CHR ''@'') s))"

subsection \<open>bcryptjs\<close>

definition bcrypt_hash :: "string \<Rightarrow> string \<Rightarrow> pwhash" where
  "bcrypt_hash password s = Bcrypt s password"

fun bcrypt_compare :: "string \<Rightarrow> pwhash \<Rightarrow> bool" where
  "bcrypt_compare password (Bcrypt s plain) = (password = plain)"

subsection \<open>jsonwebtoken\<close>

text \<open>\<open>expiresIn: "10hr"\<close> is read as ten hours, in seconds.\<close>

definition expiresIn :: nat where
  "expiresIn = 10 * 60 * 60"

text \<open>
  \<open>jwt.sign(payload, secret, {expiresIn}, callback)\<close>: the callback gets an error when
  the secret is empty, and otherwise a token issued at the current second, expiring
  \<open>expiresIn\<close> seconds later.
\<close>

definition jwt_sign :: "objectid \<Rightarrow> string \<Rightarrow> nat \<Rightarrow> nat \<Rightarrow> error + token" where
  "jwt_sign uid secret ttl ms =
     (if secret = [] then Inl JwtError
      else Inr \<lparr>tok_user_id = uid, tok_iat = ms div 1000,
                tok_exp = ms div 1000 + ttl, tok_key = secret\<rparr>)"

datatype verify_error = InvalidToken | Expired

text \<open>
  Modelled from the spec: token verification (\<open>./middleware/auth\<close>) is not among the
  sources. Section 4.2: \<open>verify(token, secret)\<close> fails with \<open>InvalidToken\<close> if the
  signature does not match, or \<open>Expired\<close> if the current time exceeds the encoded
  expiry; on success it returns the embedded user id. The time is in seconds.
\<close>

definition verify :: "token \<Rightarrow> string \<Rightarrow> nat \<Rightarrow> verify_error + objectid" where
  "verify t secret time =
     (if tok_key t \<noteq> secret then Inl InvalidToken
      else if tok_exp t < time then Inl Expired
      else Inr (tok_user_id t))"

section \<open>Handlers\<close>

text \<open>
  Every handler below that is registered behind \<open>auth\<close> takes \<open>requester\<close>, the value
  of \<open>req.user.id\<close> that the middleware has set.
\<close>

text \<open>
  \<open>returnToken(user, res)\<close>: signs the payload \<open>{user: {id: user.id}}\<close>; the callback
  throws on an error and otherwise sends \<open>{token}\<close>.
\<close>

definition returnToken :: "env \<Rightarrow> user \<Rightarrow> error + reply" where
  "returnToken e u =
     (case jwt_sign (user_id u) (jwtSecret e) expiresIn (now_ms e) of
        Inl err \<Rightarrow> Inl err
      | Inr t \<Rightarrow> Inr (Reply 200 (Json_token t)))"

text \<open>\<open>app.get("/api/posts")\<close>\<close>

definition get_api_posts :: "db \<Rightarrow> objectid \<Rightarrow> reply" where
  "get_api_posts d requester =
     (case Post_find_sort_date_desc d of
        Inl err \<Rightarrow> server_error
      | Inr ps \<Rightarrow> Reply 200 (Json_posts ps))"

text \<open>\<open>app.get("/api/posts/:id")\<close>\<close>

definition get_api_posts_id :: "db \<Rightarrow> objectid \<Rightarrow> objectid \<Rightarrow> reply" where
  "get_api_posts_id d requester i =
     (case Post_findById d i of
        Inl err \<Rightarrow> server_error
      | Inr None \<Rightarrow> Reply 404 (Json_msg ''Post not found!'')
      | Inr (Some p) \<Rightarrow> Reply 200 (Json_post p))"

text \<open>
  \<open>app.post('/api/login')\<close>. \<open>bcrypt.compare\<close> rejects when the password is not a
  string, which ends in the \<open>catch\<close>.
\<close>

definition post_api_login ::
  "(string \<Rightarrow> bool) \<Rightarrow> env \<Rightarrow> db \<Rightarrow> string option \<Rightarrow> jsval option \<Rightarrow> reply" where
  "post_api_login isEmail e d email password =
     (let errors = check ''email'' ''Please enter a valid email'' (isEmail (to_str email)) @
                   check ''password'' ''A password is required!'' (exists_field password)
      in if errors \<noteq> [] then Reply 422 (Json_errors errors)
         else
           (case User_findOne d email of
              Inl err \<Rightarrow> server_error
            | Inr None \<Rightarrow> Reply 400 (Json_errors [Err ''Invaild email or password!'' None])
            | Inr (Some u) \<Rightarrow>
                (case password of
                   Some (JStr pw) \<Rightarrow>
                     if \<not> bcrypt_compare pw (user_password u)
                     then Reply 400 (Json_errors [Err ''Invaild email or password!'' None])
                     else (case returnToken e u of
                             Inl err \<Rightarrow> server_error
                           | Inr r \<Rightarrow> r)
                 | _ \<Rightarrow> server_error)))"

text \<open>\<open>app.post('/api/users')\<close>\<close>

definition post_api_users ::
  "(string \<Rightarrow> bool) \<Rightarrow> env \<Rightarrow> db \<Rightarrow> string option \<Rightarrow> string option \<Rightarrow> string option
     \<Rightarrow> reply \<times> db" where
  "post_api_users isEmail e d name email password =
     (let errors = check ''name'' ''Please enter your name'' (not_isEmpty name) @
                   check ''email'' ''Please enter your email'' (isEmail (to_str email)) @
                   check ''password'' ''Please enter a password with at least 6 characters''
                     (isLength_min 6 password)
      in if errors \<noteq> [] then (Reply 422 (Json_errors errors), d)
         else
           (case User_findOne d email of
              Inl err \<Rightarrow> (server_error, d)
            | Inr (Some u) \<Rightarrow> (Reply 400 (Json_errors [Err ''User already exists'' None]), d)
            | Inr None \<Rightarrow>
                (case (name, email, password) of
                   (Some n, Some em, Some pw) \<Rightarrow>
                     (let u = \<lparr>user_id = new_id e, user_name = n, user_email = em,
                               user_password = bcrypt_hash pw (salt e)\<rparr>
                      in case User_save d u of
                           Inl err \<Rightarrow> (server_error, d)
                         | Inr d' \<Rightarrow>
                             (case returnToken e u of
                                Inl err \<Rightarrow> (server_error, d')
                              | Inr r \<Rightarrow> (r, d')))
                 | _ \<Rightarrow> (server_error, d))))"

text \<open>\<open>app.post("/api/posts")\<close>\<close>

definition post_api_posts ::
  "env \<Rightarrow> db \<Rightarrow> objectid \<Rightarrow> string option \<Rightarrow> string option \<Rightarrow> reply \<times> db" where
  "post_api_posts e d requester title body =
     (let errors = check ''title'' ''Title text is required!'' (not_isEmpty title) @
                   check ''body'' ''Body test is required!'' (not_isEmpty body)
      in if errors \<noteq> [] then (Reply 400 (Json_errors errors), d)
         else
           (case User_findById d requester of
              Inl err \<Rightarrow> (server_error, d)
            | Inr None \<Rightarrow> (server_error, d)
            | Inr (Some u) \<Rightarrow>
                (let p = \<lparr>post_id = new_id e, post_user = Some (user_id u),
                          post_body = to_str body, post_title = to_str title,
                          post_date = now_ms e\<rparr>
                 in case Post_save d p of
                      Inl err \<Rightarrow> (server_error, d)
                    | Inr d' \<Rightarrow> (Reply 200 (Json_post p), d'))))"

text \<open>\<open>app.delete("/api/posts/:id")\<close>\<close>

definition delete_api_posts_id :: "db \<Rightarrow> objectid \<Rightarrow> objectid \<Rightarrow> reply \<times> db" where
  "delete_api_posts_id d requester i =
     (case Post_findById d i of
        Inl err \<Rightarrow> (server_error, d)
      | Inr None \<Rightarrow> (Reply 404 (Json_msg ''Post not found!''), d)
      | Inr (Some p) \<Rightarrow>
          (case post_user p of
             None \<Rightarrow> (server_error, d)
           | Some owner \<Rightarrow>
               if owner \<noteq> requester then (Reply 401 (Json_msg ''User not authorized!''), d)
               else (case Post_remove d p of
                       Inl err \<Rightarrow> (server_error, d)
                     | Inr d' \<Rightarrow> (Reply 200 (Json_msg ''Post removed!''), d'))))"

text \<open>
  JavaScript's \<open>a || b\<close> on a body field: an absent field and the empty string are
  falsy.
\<close>

definition js_or :: "string option \<Rightarrow> string \<Rightarrow> string" where
  "js_or a b = (case a of None \<Rightarrow> b | Some s \<Rightarrow> if s = [] then b else s)"

text \<open>
  \<open>app.put("/api/posts/:id")\<close>. The source assigns \<open>post.body = title || post.body\<close>,
  and after \<open>post.save()\<close> the \<open>try\<close> block ends without a call on \<open>res\<close>.
\<close>

definition put_api_posts_id ::
  "db \<Rightarrow> objectid \<Rightarrow> objectid \<Rightarrow> string option \<Rightarrow> string option \<Rightarrow> reply \<times> db" where
  "put_api_posts_id d requester i title body =
     (case Post_findById d i of
        Inl err \<Rightarrow> (server_error, d)
      | Inr None \<Rightarrow> (Reply 404 (Json_msg ''Post not found!''), d)
      | Inr (Some p) \<Rightarrow>
          (case post_user p of
             None \<Rightarrow> (server_error, d)
           | Some owner \<Rightarrow>
               if owner \<noteq> requester then (Reply 401 (Json_msg ''User not authorized!''), d)
               else (let p' = p\<lparr>post_title := js_or title (post_title p),
                                 post_body := js_or title (post_body p)\<rparr>
                     in case Post_save d p' of
                          Inl err \<Rightarrow> (server_error, d)
                        | Inr d' \<Rightarrow> (NoReply, d'))))"

section \<open>Example data\<close>

definition alice :: user where
  "alice = \<lparr>user_id = ''5d9f1140f10a81216cfd4401'',
            user_name = ''alice'', user_email = ''alice@example.com'',
            user_password = Bcrypt ''s0'' ''secret1''\<rparr>"

definition bob :: user where
  "bob = \<lparr>user_id = ''5d9f1140f10a81216cfd4402'',
          user_name = ''bob'', user_email = ''bob@example.com'',
          user_password = Bcrypt ''s1'' ''hunter22''\<rparr>"

definition hello :: post where
  "hello = \<lparr>post_id = ''5da0a2c1e4b0a13f08c7b101'',
            post_user = Some ''5d9f1140f10a81216cfd4401'', post_body = ''World'',
            post_title = ''Hi'', post_date = 1000\<rparr>"

definition later :: post where
  "later = \<lparr>post_id = ''5da0a2c1e4b0a13f08c7b102'',
            post_user = Some ''5d9f1140f10a81216cfd4402'', post_body = ''Again'',
            post_title = ''Yo'', post_date = 2000\<rparr>"

definition db0 :: db where
  "db0 = \<lparr>users = [alice, bob], posts = [hello, later], connected = True\<rparr>"

definition env0 :: env where
  "env0 = \<lparr>now_ms = 3000500, new_id = ''5db1c3d2a7e94b2a10f6c001'',
           salt = ''s9'', jwtSecret = ''k''\<rparr>"

section \<open>Properties\<close>

lemmas valid_defs = check_def not_isEmpty_def isLength_min_def exists_field_def to_str_def

subsection \<open>Supporting lemmas\<close>

lemma upsert_post_mem: "p \<in> set (upsert_post p ps)"
  by (induction ps) auto

lemma find_email_stored:
  assumes "u \<in> set us" and "Some (user_email u) = e"
  shows "\<exists>w. find (\<lambda>x. Some (user_email x) = e) us = Some w"
  using assms by (cases "find (\<lambda>x. Some (user_email x) = e) us") (auto simp: find_None_iff)

lemma sort_desc_sorted:
  "sorted_wrt (\<lambda>a b. post_date b \<le> post_date a) (sort_key (\<lambda>p. - int (post_date p)) ps)"
proof -
  have "sorted (map (\<lambda>p. - int (post_date p)) (sort_key (\<lambda>p. - int (post_date p)) ps))"
    by (rule sorted_sort_key)
  then show ?thesis by (simp add: sorted_map)
qed

lemma sorted_desc_hd:
  assumes "sorted_wrt (\<lambda>a b. post_date b \<le> post_date a) ps"
    and "p \<in> set ps"
    and "\<forall>q\<in>set ps. q \<noteq> p \<longrightarrow> post_date q < post_date p"
  shows "ps \<noteq> [] \<and> hd ps = p"
proof (cases ps)
  case Nil
  with assms(2) show ?thesis by simp
next
  case (Cons x xs)
  show ?thesis
  proof (cases "x = p")
    case True
    with Cons show ?thesis by simp
  next
    case False
    with assms(2) Cons have "p \<in> set xs" by simp
    with assms(1) Cons have "post_date p \<le> post_date x" by simp
    moreover from assms(3) Cons False have "post_date x < post_date p" by simp
    ultimately show ?thesis by simp
  qed
qed

text \<open>The string form of an ObjectId casts to itself.\<close>

lemma lower_hex_canonical:
  "c \<in> set ''0123456789abcdef'' \<Longrightarrow> lower_hex c = c \<and> isHexDigit c"
  by (auto simp: lower_hex_def isHexDigit_def)

lemma cast_canonical:
  assumes "canonical_id s"
  shows "castObjectId s = Some s"
proof -
  from assms have len: "length s = 24"
    and digits: "\<forall>c\<in>set s. c \<in> set ''0123456789abcdef''"
    by (simp_all add: canonical_id_def list_all_iff)
  from digits have "list_all isHexDigit s"
    using lower_hex_canonical by (simp add: list_all_iff)
  moreover from digits have "map lower_hex s = s"
    using lower_hex_canonical by (intro map_idI) blast
  ultimately show ?thesis using len by (simp add: castObjectId_def)
qed

text \<open>
  On a store whose post ids are all string forms of ObjectIds, \<open>Post_findById\<close> is:
  cast the id, reject when that fails, otherwise look the cast id up.
\<close>

lemma Post_findById_cast_first:
  assumes "\<forall>p\<in>set (posts d). canonical_id (post_id p)"
  shows "Post_findById d i =
           (if connected d then
              (case castObjectId i of
                 None \<Rightarrow> Inl CastError
               | Some c \<Rightarrow> Inr (find (\<lambda>p. post_id p = c) (posts d)))
            else Inl StoreError)"
proof (cases "find (\<lambda>p. post_id p = i) (posts d)")
  case None
  then show ?thesis by (simp add: Post_findById_def)
next
  case (Some p)
  then have "p \<in> set (posts d)" and "post_id p = i"
    by (auto simp: find_Some_iff)
  with assms have "canonical_id i" by blast
  then have "castObjectId i = Some i" by (rule cast_canonical)
  with Some show ?thesis by (simp add: Post_findById_def)
qed

text \<open>An id that names no stored post and does not cast ends in the \<open>catch\<close>.\<close>

lemma get_post_uncastable_500:
  assumes "connected d" and "i \<notin> post_id ` set (posts d)" and "castObjectId i = None"
  shows "get_api_posts_id d v i = Reply 500 (Text ''Server error'')"
proof -
  from assms(2) have "find (\<lambda>p. post_id p = i) (posts d) = None"
    by (auto simp: find_None_iff)
  with assms(1,3) show ?thesis
    by (simp add: get_api_posts_id_def Post_findById_def server_error_def)
qed

lemma returnToken_signed:
  "jwt_sign (user_id u) (jwtSecret e) expiresIn (now_ms e) = Inr t \<Longrightarrow>
   returnToken e u = Inr (Reply 200 (Json_token t))"
  by (simp add: returnToken_def)

text \<open>Login with a stored email and its password answers with what \<open>returnToken\<close> sends.\<close>

lemma login_success:
  assumes "isEmail (to_str email)" and "connected d"
    and "find (\<lambda>x. Some (user_email x) = email) (users d) = Some u"
    and "password = Some (JStr pw)" and "bcrypt_compare pw (user_password u)"
    and "returnToken e u = Inr r"
  shows "post_api_login isEmail e d email password = r"
  using assms by (simp add: post_api_login_def valid_defs User_findOne_def)

text \<open>Registration with a new email stores the user and answers likewise.\<close>

lemma register_success:
  assumes "name = Some n" and "n \<noteq> []" and "email = Some em" and "isEmail em"
    and "password = Some pw" and "6 \<le> length pw" and "connected d"
    and "find (\<lambda>x. Some (user_email x) = email) (users d) = None"
    and "u = \<lparr>user_id = new_id e, user_name = n, user_email = em,
               user_password = bcrypt_hash pw (salt e)\<rparr>"
    and "returnToken e u = Inr r"
  shows "post_api_users isEmail e d name email password = (r, d\<lparr>users := users d @ [u]\<rparr>)"
  using assms by (simp add: post_api_users_def valid_defs User_findOne_def User_save_def)

text \<open>
  What the update route does for the owner when a non-empty title is sent: both the
  title and the body become that title, whatever \<open>body\<close> holds.
\<close>

lemma put_owner_with_title:
  assumes "connected d"
    and "find (\<lambda>p. post_id p = i) (posts d) = Some p"
    and "post_user p = Some requester"
    and "title = Some t" and "t \<noteq> []"
  shows "put_api_posts_id d requester i title body =
           (NoReply, d\<lparr>posts := upsert_post (p\<lparr>post_title := t, post_body := t\<rparr>) (posts d)\<rparr>)"
  using assms by (simp add: put_api_posts_id_def Post_findById_def Post_save_def js_or_def)

subsection \<open>Updating a post\<close>

text \<open>
  C1. A PUT by the owner with title and body provided should store the provided title and
  the provided body. The handler assigns the title to both fields: for the post
  \<open>hello\<close> (title "Hi", body "World", owned by \<open>alice\<close>), the request of \<open>alice\<close> with
  title "New" and body "Text" leaves the stored post with title "New" and body "New".
\<close>

theorem put_stores_title_as_body:
  "Post_findById
     (snd (put_api_posts_id db0 (user_id alice) (post_id hello) (Some ''New'') (Some ''Text'')))
     (post_id hello)
     = Inr (Some (hello\<lparr>post_title := ''New'', post_body := ''New''\<rparr>))"
  by (simp add: put_api_posts_id_def Post_findById_def Post_save_def js_or_def
      db0_def hello_def later_def alice_def)

text \<open>
  C9. When the post exists, the requester is its owner and the handler does not end in
  its \<open>catch\<close> branch (which sends 500), the PUT handler ends without sending a
  response: no status and no body.
\<close>

theorem put_success_sends_nothing:
  assumes "find (\<lambda>p. post_id p = i) (posts d) = Some p"
    and "post_user p = Some requester"
    and "fst (put_api_posts_id d requester i title body) \<noteq> server_error"
  shows "fst (put_api_posts_id d requester i title body) = NoReply \<and>
         status_of (fst (put_api_posts_id d requester i title body)) = None"
proof -
  define p' where "p' = p\<lparr>post_title := js_or title (post_title p),
                              post_body := js_or title (post_body p)\<rparr>"
  have c: "connected d"
  proof (rule ccontr)
    assume "\<not> connected d"
    then have "fst (put_api_posts_id d requester i title body) = server_error"
      by (simp add: put_api_posts_id_def Post_findById_def)
    with assms(3) show False by simp
  qed
  have step: "put_api_posts_id d requester i title body =
      (case Post_save d p' of Inl err \<Rightarrow> (server_error, d) | Inr d' \<Rightarrow> (NoReply, d'))"
    using c assms(1,2) by (simp add: put_api_posts_id_def Post_findById_def p'_def)
  show ?thesis
  proof (cases "Post_save d p'")
    case (Inl err)
    with step assms(3) show ?thesis by simp
  next
    case (Inr d')
    with step show ?thesis by simp
  qed
qed

theorem put_success_sends_nothing_witness:
  "find (\<lambda>p. post_id p = post_id hello) (posts db0) = Some hello \<and>
   post_user hello = Some (user_id alice) \<and>
   fst (put_api_posts_id db0 (user_id alice) (post_id hello) (Some ''New'') (Some ''Text''))
     \<noteq> server_error \<and>
   fst (put_api_posts_id db0 (user_id alice) (post_id hello) (Some ''New'') (Some ''Text''))
     = NoReply \<and>
   status_of
     (fst (put_api_posts_id db0 (user_id alice) (post_id hello) (Some ''New'') (Some ''Text'')))
     = None"
proof -
  have a: "find (\<lambda>p. post_id p = post_id hello) (posts db0) = Some hello"
    by (simp add: db0_def hello_def)
  have b: "post_user hello = Some (user_id alice)" by (simp add: hello_def alice_def)
  have c: "fst (put_api_posts_id db0 (user_id alice) (post_id hello) (Some ''New'')
                  (Some ''Text'')) \<noteq> server_error"
    by (simp add: put_api_posts_id_def Post_findById_def Post_save_def js_or_def
        server_error_def db0_def hello_def alice_def)
  from put_success_sends_nothing [OF a b c] a b c show ?thesis by simp
qed

subsection \<open>Ownership\<close>

text \<open>
  C2. For a stored post owned by \<open>u\<close> and an authenticated requester \<open>v \<noteq> u\<close>, with the
  store answering, DELETE and PUT both reply 401 and return the store as it was, so the
  post keeps its owner, title, body and date.
\<close>

theorem non_owner_rejected:
  assumes "connected d"
    and "find (\<lambda>p. post_id p = i) (posts d) = Some p"
    and "post_user p = Some u"
    and "v \<noteq> u"
  shows "delete_api_posts_id d v i = (Reply 401 (Json_msg ''User not authorized!''), d) \<and>
         put_api_posts_id d v i title body = (Reply 401 (Json_msg ''User not authorized!''), d)"
  using assms by (simp add: delete_api_posts_id_def put_api_posts_id_def Post_findById_def)

theorem non_owner_rejected_witness:
  "connected db0 \<and> find (\<lambda>p. post_id p = post_id hello) (posts db0) = Some hello \<and>
   post_user hello = Some (user_id alice) \<and> user_id bob \<noteq> user_id alice \<and>
   delete_api_posts_id db0 (user_id bob) (post_id hello) =
     (Reply 401 (Json_msg ''User not authorized!''), db0) \<and>
   put_api_posts_id db0 (user_id bob) (post_id hello) (Some ''X'') (Some ''Y'') =
     (Reply 401 (Json_msg ''User not authorized!''), db0)"
proof -
  have a: "connected db0" by (simp add: db0_def)
  have b: "find (\<lambda>p. post_id p = post_id hello) (posts db0) = Some hello"
    by (simp add: db0_def hello_def)
  have c: "post_user hello = Some (user_id alice)" by (simp add: hello_def alice_def)
  have d: "user_id bob \<noteq> user_id alice" by (simp add: alice_def bob_def)
  from non_owner_rejected [OF a b c d, of "Some ''X''" "Some ''Y''"] a b c d
  show ?thesis by simp
qed

subsection \<open>Creating a post\<close>

text \<open>
  C3. For a stored user \<open>u\<close> who is the authenticated requester, and a POST /api/posts
  request with non-empty title and body, with the store answering: the reply is 200 with
  the created post, whose owner reference is the id of \<open>u\<close>, whose title and body are
  the ones sent, and which is in the store afterwards.
\<close>

theorem created_post_owned_by_requester:
  assumes "connected d"
    and "find (\<lambda>x. user_id x = u) (users d) = Some usr"
    and "title = Some t" and "t \<noteq> []"
    and "body = Some b" and "b \<noteq> []"
  shows "\<exists>p d'. post_api_posts e d u title body = (Reply 200 (Json_post p), d') \<and>
           user_id usr = u \<and> post_user p = Some u \<and>
           post_title p = t \<and> post_body p = b \<and> p \<in> set (posts d')"
proof -
  from assms(2) have uid: "user_id usr = u" by (auto simp: find_Some_iff)
  define p where "p = \<lparr>post_id = new_id e, post_user = Some (user_id usr),
                          post_body = to_str body, post_title = to_str title,
                          post_date = now_ms e\<rparr>"
  have sv: "Post_save d p = Inr (d\<lparr>posts := upsert_post p (posts d)\<rparr>)"
    using assms by (simp add: Post_save_def p_def to_str_def)
  have "post_api_posts e d u title body =
          (Reply 200 (Json_post p), d\<lparr>posts := upsert_post p (posts d)\<rparr>)"
    using assms sv unfolding p_def
    by (simp add: post_api_posts_def valid_defs User_findById_def Let_def)
  moreover have "post_user p = Some u" "post_title p = t" "post_body p = b"
    using assms uid by (simp_all add: p_def to_str_def)
  moreover have "p \<in> set (posts (d\<lparr>posts := upsert_post p (posts d)\<rparr>))"
    by (simp add: upsert_post_mem)
  ultimately show ?thesis using uid by blast
qed

theorem created_post_owned_by_requester_witness:
  "connected db0 \<and> find (\<lambda>x. user_id x = user_id alice) (users db0) = Some alice \<and>
   (\<exists>p d'. post_api_posts env0 db0 (user_id alice) (Some ''Hey'') (Some ''There'') =
              (Reply 200 (Json_post p), d') \<and>
            post_user p = Some (user_id alice) \<and>
            post_title p = ''Hey'' \<and> post_body p = ''There'' \<and> p \<in> set (posts d'))"
proof -
  have a: "connected db0" by (simp add: db0_def)
  have b: "find (\<lambda>x. user_id x = user_id alice) (users db0) = Some alice"
    by (simp add: db0_def)
  have c: "''Hey'' \<noteq> []" "''There'' \<noteq> []" by simp_all
  from created_post_owned_by_requester [OF a b refl c(1) refl c(2), of env0]
  have "\<exists>p d'. post_api_posts env0 db0 (user_id alice) (Some ''Hey'') (Some ''There'') =
              (Reply 200 (Json_post p), d') \<and>
            post_user p = Some (user_id alice) \<and>
            post_title p = ''Hey'' \<and> post_body p = ''There'' \<and> p \<in> set (posts d')"
    by blast
  with a b show ?thesis by simp
qed

text \<open>
  C4. A POST /api/posts request with an empty or missing title or body should be answered
  422 with the list of validation errors and create no post. The handler sends the list
  and creates nothing, but with status 400: here for an empty title.
\<close>

theorem post_validation_failure_is_400:
  "post_api_posts env0 db0 (user_id alice) (Some []) (Some ''World'') =
     (Reply 400 (Json_errors [Err ''Title text is required!'' (Some ''title'')]), db0)"
  by (simp add: post_api_posts_def valid_defs)

subsection \<open>Registration\<close>

text \<open>
  C5, as stated: every registration request whose email is that of a stored user is
  answered 400. It fails for a request that does not pass validation: with the email of
  the stored user \<open>alice\<close> and a password of three characters the reply is 422.
\<close>

theorem register_stored_email_short_password_422:
  "alice \<in> set (users db0) \<and> user_email alice = ''alice@example.com'' \<and>
   status_of (fst (post_api_users isEmail_at env0 db0
      (Some ''al'') (Some ''alice@example.com'') (Some ''abc''))) = Some 422"
  by (simp add: post_api_users_def valid_defs isEmail_at_def db0_def alice_def)

text \<open>
  C5, amended. A registration request that passes validation (non-empty name, well-formed
  email, password of at least 6 characters) and whose email is that of a stored user is
  answered 400 "User already exists", and the store is returned unchanged. A request
  that fails validation is answered 422, also with the store unchanged.
\<close>

theorem register_stored_email_400:
  "(not_isEmpty name \<and> isEmail (to_str email) \<and> isLength_min 6 password \<and> connected d \<and>
    u \<in> set (users d) \<and> Some (user_email u) = email \<longrightarrow>
      post_api_users isEmail e d name email password =
        (Reply 400 (Json_errors [Err ''User already exists'' None]), d)) \<and>
   (\<not> (not_isEmpty name \<and> isEmail (to_str email) \<and> isLength_min 6 password) \<longrightarrow>
      status_of (fst (post_api_users isEmail e d name email password)) = Some 422 \<and>
      snd (post_api_users isEmail e d name email password) = d)"
proof (intro conjI impI)
  assume a: "not_isEmpty name \<and> isEmail (to_str email) \<and> isLength_min 6 password \<and>
    connected d \<and> u \<in> set (users d) \<and> Some (user_email u) = email"
  then obtain w where "find (\<lambda>x. Some (user_email x) = email) (users d) = Some w"
    using find_email_stored by blast
  with a show "post_api_users isEmail e d name email password =
        (Reply 400 (Json_errors [Err ''User already exists'' None]), d)"
    by (simp add: post_api_users_def check_def User_findOne_def)
next
  assume "\<not> (not_isEmpty name \<and> isEmail (to_str email) \<and> isLength_min 6 password)"
  then show "status_of (fst (post_api_users isEmail e d name email password)) = Some 422"
    by (auto simp: post_api_users_def check_def)
next
  assume "\<not> (not_isEmpty name \<and> isEmail (to_str email) \<and> isLength_min 6 password)"
  then show "snd (post_api_users isEmail e d name email password) = d"
    by (auto simp: post_api_users_def check_def)
qed

theorem register_stored_email_400_witness:
  "not_isEmpty (Some ''al'') \<and> isEmail_at (to_str (Some ''alice@example.com'')) \<and>
   isLength_min 6 (Some ''secret9'') \<and> connected db0 \<and> alice \<in> set (users db0) \<and>
   Some (user_email alice) = Some ''alice@example.com'' \<and>
   post_api_users isEmail_at env0 db0 (Some ''al'') (Some ''alice@example.com'') (Some ''secret9'') =
     (Reply 400 (Json_errors [Err ''User already exists'' None]), db0) \<and>
   \<not> isLength_min 6 (Some ''abc'') \<and>
   status_of (fst (post_api_users isEmail_at env0 db0
      (Some ''al'') (Some ''alice@example.com'') (Some ''abc''))) = Some 422 \<and>
   snd (post_api_users isEmail_at env0 db0
      (Some ''al'') (Some ''alice@example.com'') (Some ''abc'')) = db0"
proof -
  have v: "not_isEmpty (Some ''al'')" "isEmail_at (to_str (Some ''alice@example.com''))"
    "isLength_min 6 (Some ''secret9'')" "\<not> isLength_min 6 (Some ''abc'')"
    by (simp_all add: valid_defs isEmail_at_def)
  have s: "connected db0" "alice \<in> set (users db0)"
    "Some (user_email alice) = Some ''alice@example.com''"
    by (simp_all add: db0_def alice_def)
  from register_stored_email_400
         [of "Some ''al''" isEmail_at "Some ''alice@example.com''" "Some ''secret9''" db0 alice env0]
       v s
  have one: "post_api_users isEmail_at env0 db0 (Some ''al'') (Some ''alice@example.com'')
               (Some ''secret9'') =
             (Reply 400 (Json_errors [Err ''User already exists'' None]), db0)"
    by blast
  from register_stored_email_400
         [of "Some ''al''" isEmail_at "Some ''alice@example.com''" "Some ''abc''" db0 alice env0]
       v
  have two: "status_of (fst (post_api_users isEmail_at env0 db0
      (Some ''al'') (Some ''alice@example.com'') (Some ''abc''))) = Some 422 \<and>
   snd (post_api_users isEmail_at env0 db0
      (Some ''al'') (Some ''alice@example.com'') (Some ''abc'')) = db0"
    by blast
  from v s one two show ?thesis by blast
qed

subsection \<open>Reading posts\<close>

text \<open>
  C6. With the store answering, GET /api/posts replies 200 with a list that holds exactly
  the stored posts (as a multiset) in descending order of date; a stored post that is
  strictly newer than every other one is the first element.
\<close>

theorem posts_listed_newest_first:
  assumes "connected d"
  shows "\<exists>ps. get_api_posts d v = Reply 200 (Json_posts ps) \<and>
           mset ps = mset (posts d) \<and>
           sorted_wrt (\<lambda>a b. post_date b \<le> post_date a) ps \<and>
           (\<forall>p\<in>set (posts d).
              (\<forall>q\<in>set (posts d). q \<noteq> p \<longrightarrow> post_date q < post_date p) \<longrightarrow>
              ps \<noteq> [] \<and> hd ps = p)"
proof -
  define ps where "ps = sort_key (\<lambda>p. - int (post_date p)) (posts d)"
  have r: "get_api_posts d v = Reply 200 (Json_posts ps)"
    using assms by (simp add: get_api_posts_def Post_find_sort_date_desc_def ps_def)
  have m: "mset ps = mset (posts d)" by (simp add: ps_def)
  then have s: "set ps = set (posts d)" by (metis set_mset_mset)
  have o: "sorted_wrt (\<lambda>a b. post_date b \<le> post_date a) ps"
    unfolding ps_def by (rule sort_desc_sorted)
  have "\<forall>p\<in>set (posts d).
              (\<forall>q\<in>set (posts d). q \<noteq> p \<longrightarrow> post_date q < post_date p) \<longrightarrow>
              ps \<noteq> [] \<and> hd ps = p"
    using sorted_desc_hd [OF o] s by blast
  with r m o show ?thesis by blast
qed

theorem posts_listed_newest_first_witness:
  "connected db0 \<and> later \<in> set (posts db0) \<and>
   post_date hello < post_date later \<and>
   (\<exists>ps. get_api_posts db0 (user_id alice) = Reply 200 (Json_posts ps) \<and>
          mset ps = mset (posts db0) \<and>
          sorted_wrt (\<lambda>a b. post_date b \<le> post_date a) ps \<and>
          ps \<noteq> [] \<and> hd ps = later)"
proof -
  have a: "connected db0" by (simp add: db0_def)
  have b: "later \<in> set (posts db0)" by (simp add: db0_def)
  have c: "post_date hello < post_date later" by (simp add: hello_def later_def)
  have d: "\<forall>q\<in>set (posts db0). q \<noteq> later \<longrightarrow> post_date q < post_date later"
    using c by (simp add: db0_def)
  from posts_listed_newest_first [OF a, of "user_id alice"] b d
  have "\<exists>ps. get_api_posts db0 (user_id alice) = Reply 200 (Json_posts ps) \<and>
          mset ps = mset (posts db0) \<and>
          sorted_wrt (\<lambda>a b. post_date b \<le> post_date a) ps \<and>
          ps \<noteq> [] \<and> hd ps = later"
    by blast
  with a b c show ?thesis by blast
qed

text \<open>
  C7, as stated: every GET /api/posts/:id request whose id resolves to no stored post is
  answered 404. It fails for an id that does not cast to an ObjectId: \<open>findById\<close> then
  rejects, and the \<open>catch\<close> sends 500. Here the id is "abc".
\<close>

theorem get_post_malformed_id_500:
  "''abc'' \<notin> post_id ` set (posts db0) \<and>
   get_api_posts_id db0 (user_id alice) ''abc'' = Reply 500 (Text ''Server error'')"
  by (simp add: get_api_posts_id_def Post_findById_def castObjectId_def server_error_def
      db0_def hello_def later_def)

text \<open>
  C7, amended. With the store answering: a GET /api/posts/:id request whose id is 24
  hexadecimal digits that name no stored post (neither as written nor in lower case) is
  answered 404; a request whose id is that of a stored post is answered 200 with a stored
  post of that id.
\<close>

theorem get_post_by_id_404_or_200:
  assumes "connected d"
  shows "(length i = 24 \<and> list_all isHexDigit i \<and>
          i \<notin> post_id ` set (posts d) \<and> map lower_hex i \<notin> post_id ` set (posts d) \<longrightarrow>
            get_api_posts_id d v i = Reply 404 (Json_msg ''Post not found!'')) \<and>
         (i \<in> post_id ` set (posts d) \<longrightarrow>
            (\<exists>p\<in>set (posts d). post_id p = i \<and>
               get_api_posts_id d v i = Reply 200 (Json_post p)))"
proof (intro conjI impI)
  assume h: "length i = 24 \<and> list_all isHexDigit i \<and>
          i \<notin> post_id ` set (posts d) \<and> map lower_hex i \<notin> post_id ` set (posts d)"
  then have raw: "find (\<lambda>p. post_id p = i) (posts d) = None"
    by (auto simp: find_None_iff)
  from h have cast: "castObjectId i = Some (map lower_hex i)"
    by (simp add: castObjectId_def)
  from h have "\<forall>p\<in>set (posts d). post_id p \<noteq> map lower_hex i"
    by (metis imageI)
  then have low: "find (\<lambda>p. post_id p = map lower_hex i) (posts d) = None"
    by (simp add: find_None_iff)
  from assms raw cast low
  show "get_api_posts_id d v i = Reply 404 (Json_msg ''Post not found!'')"
    by (simp add: get_api_posts_id_def Post_findById_def)
next
  assume "i \<in> post_id ` set (posts d)"
  then obtain p where p: "find (\<lambda>p. post_id p = i) (posts d) = Some p"
    by (cases "find (\<lambda>p. post_id p = i) (posts d)") (auto simp: find_None_iff)
  then have "p \<in> set (posts d)" "post_id p = i"
    by (auto simp: find_Some_iff)
  moreover from assms p have "get_api_posts_id d v i = Reply 200 (Json_post p)"
    by (simp add: get_api_posts_id_def Post_findById_def)
  ultimately show "\<exists>p\<in>set (posts d). post_id p = i \<and>
               get_api_posts_id d v i = Reply 200 (Json_post p)" by blast
qed

theorem get_post_by_id_404_or_200_witness:
  "connected db0 \<and>
   length ''5da0a2c1e4b0a13f08c7b1ff'' = 24 \<and> list_all isHexDigit ''5da0a2c1e4b0a13f08c7b1ff'' \<and>
   ''5da0a2c1e4b0a13f08c7b1ff'' \<notin> post_id ` set (posts db0) \<and>
   map lower_hex ''5da0a2c1e4b0a13f08c7b1ff'' \<notin> post_id ` set (posts db0) \<and>
   get_api_posts_id db0 (user_id alice) ''5da0a2c1e4b0a13f08c7b1ff'' =
     Reply 404 (Json_msg ''Post not found!'') \<and>
   post_id later \<in> post_id ` set (posts db0) \<and>
   (\<exists>p. p \<in> set (posts db0) \<and> post_id p = post_id later \<and>
        get_api_posts_id db0 (user_id alice) (post_id later) = Reply 200 (Json_post p))"
proof -
  have a: "connected db0" by (simp add: db0_def)
  have b: "length ''5da0a2c1e4b0a13f08c7b1ff'' = 24"
    "list_all isHexDigit ''5da0a2c1e4b0a13f08c7b1ff''"
    by (simp_all add: isHexDigit_def)
  have b': "''5da0a2c1e4b0a13f08c7b1ff'' \<notin> post_id ` set (posts db0)"
    "map lower_hex ''5da0a2c1e4b0a13f08c7b1ff'' \<notin> post_id ` set (posts db0)"
    by (simp_all add: db0_def hello_def later_def lower_hex_def)
  have c: "post_id later \<in> post_id ` set (posts db0)"
    by (simp add: db0_def)
  from get_post_by_id_404_or_200 [OF a, of "''5da0a2c1e4b0a13f08c7b1ff''" "user_id alice"] b b'
  have one: "get_api_posts_id db0 (user_id alice) ''5da0a2c1e4b0a13f08c7b1ff'' =
      Reply 404 (Json_msg ''Post not found!'')"
    by blast
  from get_post_by_id_404_or_200 [OF a, of "post_id later" "user_id alice"] c
  have two: "\<exists>p. p \<in> set (posts db0) \<and> post_id p = post_id later \<and>
        get_api_posts_id db0 (user_id alice) (post_id later) = Reply 200 (Json_post p)"
    by blast
  from a b b' c one two show ?thesis by blast
qed

subsection \<open>Session tokens\<close>

text \<open>
  C8. With a non-empty signing secret, \<open>returnToken\<close> for user \<open>u\<close> sends a token that
  carries the id of \<open>u\<close> and expires 10 hours (36000 seconds) after its issue time;
  verified with the same secret at any time before the expiry it yields the id of \<open>u\<close>,
  and at any time after the expiry it fails with \<open>Expired\<close>. This token is the reply of
  a successful login as \<open>u\<close>, and of a successful registration that creates \<open>u\<close>.
\<close>

theorem session_token_lifetime:
  assumes "jwtSecret e \<noteq> []"
  shows "\<exists>t. returnToken e u = Inr (Reply 200 (Json_token t)) \<and>
           tok_user_id t = user_id u \<and>
           tok_iat t = now_ms e div 1000 \<and>
           tok_exp t = tok_iat t + 10 * 60 * 60 \<and>
           (\<forall>time. time < tok_exp t \<longrightarrow> verify t (jwtSecret e) time = Inr (user_id u)) \<and>
           (\<forall>time. tok_exp t < time \<longrightarrow> verify t (jwtSecret e) time = Inl Expired) \<and>
           (\<forall>isEmail d email pw.
              isEmail (to_str email) \<and> connected d \<and>
              find (\<lambda>x. Some (user_email x) = email) (users d) = Some u \<and>
              bcrypt_compare pw (user_password u) \<longrightarrow>
              post_api_login isEmail e d email (Some (JStr pw)) = Reply 200 (Json_token t)) \<and>
           (\<forall>isEmail d n em pw.
              n \<noteq> [] \<and> isEmail em \<and> 6 \<le> length pw \<and> connected d \<and>
              find (\<lambda>x. Some (user_email x) = Some em) (users d) = None \<and>
              u = \<lparr>user_id = new_id e, user_name = n, user_email = em,
                    user_password = bcrypt_hash pw (salt e)\<rparr> \<longrightarrow>
              fst (post_api_users isEmail e d (Some n) (Some em) (Some pw)) =
                Reply 200 (Json_token t))"
proof -
  define t where "t = \<lparr>tok_user_id = user_id u, tok_iat = now_ms e div 1000,
                        tok_exp = now_ms e div 1000 + expiresIn, tok_key = jwtSecret e\<rparr>"
  have s: "jwt_sign (user_id u) (jwtSecret e) expiresIn (now_ms e) = Inr t"
    using assms by (simp add: jwt_sign_def t_def)
  then have r: "returnToken e u = Inr (Reply 200 (Json_token t))"
    by (rule returnToken_signed)
  have f: "tok_user_id t = user_id u" "tok_iat t = now_ms e div 1000"
    "tok_exp t = tok_iat t + 10 * 60 * 60"
    by (simp_all add: t_def expiresIn_def)
  have v1: "\<forall>time. time < tok_exp t \<longrightarrow> verify t (jwtSecret e) time = Inr (user_id u)"
    by (simp add: verify_def t_def)
  have v2: "\<forall>time. tok_exp t < time \<longrightarrow> verify t (jwtSecret e) time = Inl Expired"
    by (simp add: verify_def t_def)
  have l: "\<forall>isEmail d email pw.
              isEmail (to_str email) \<and> connected d \<and>
              find (\<lambda>x. Some (user_email x) = email) (users d) = Some u \<and>
              bcrypt_compare pw (user_password u) \<longrightarrow>
              post_api_login isEmail e d email (Some (JStr pw)) = Reply 200 (Json_token t)"
    using login_success [OF _ _ _ refl _ r] by blast
  have g: "\<forall>isEmail d n em pw.
              n \<noteq> [] \<and> isEmail em \<and> 6 \<le> length pw \<and> connected d \<and>
              find (\<lambda>x. Some (user_email x) = Some em) (users d) = None \<and>
              u = \<lparr>user_id = new_id e, user_name = n, user_email = em,
                    user_password = bcrypt_hash pw (salt e)\<rparr> \<longrightarrow>
              fst (post_api_users isEmail e d (Some n) (Some em) (Some pw)) =
                Reply 200 (Json_token t)"
    using register_success [OF refl _ refl _ refl _ _ _ _ r] by simp
  from r f v1 v2 l g show ?thesis by blast
qed

theorem session_token_lifetime_witness:
  "jwtSecret env0 \<noteq> [] \<and>
   (\<exists>t. returnToken env0 alice = Inr (Reply 200 (Json_token t)) \<and>
        tok_user_id t = user_id alice \<and> tok_iat t = 3000 \<and> tok_exp t = 39000 \<and>
        verify t ''k'' 38999 = Inr (user_id alice) \<and>
        verify t ''k'' 39001 = Inl Expired \<and>
        post_api_login isEmail_at env0 db0 (Some ''alice@example.com'')
          (Some (JStr ''secret1'')) = Reply 200 (Json_token t))"
proof -
  have a: "jwtSecret env0 \<noteq> []" by (simp add: env0_def)
  have k: "jwtSecret env0 = ''k''" "now_ms env0 div 1000 = 3000"
    by (simp_all add: env0_def)
  have l: "isEmail_at (to_str (Some ''alice@example.com'')) \<and> connected db0 \<and>
      find (\<lambda>x. Some (user_email x) = Some ''alice@example.com'') (users db0) = Some alice \<and>
      bcrypt_compare ''secret1'' (user_password alice)"
    by (simp add: valid_defs isEmail_at_def db0_def alice_def)
  from session_token_lifetime [OF a, of alice] obtain t where
    big: "returnToken env0 alice = Inr (Reply 200 (Json_token t)) \<and>
           tok_user_id t = user_id alice \<and>
           tok_iat t = now_ms env0 div 1000 \<and>
           tok_exp t = tok_iat t + 10 * 60 * 60 \<and>
           (\<forall>time. time < tok_exp t \<longrightarrow>
              verify t (jwtSecret env0) time = Inr (user_id alice)) \<and>
           (\<forall>time. tok_exp t < time \<longrightarrow> verify t (jwtSecret env0) time = Inl Expired) \<and>
           (\<forall>isEmail d email pw.
              isEmail (to_str email) \<and> connected d \<and>
              find (\<lambda>x. Some (user_email x) = email) (users d) = Some alice \<and>
              bcrypt_compare pw (user_password alice) \<longrightarrow>
              post_api_login isEmail env0 d email (Some (JStr pw)) =
                Reply 200 (Json_token t)) \<and>
           (\<forall>isEmail d n em pw.
              n \<noteq> [] \<and> isEmail em \<and> 6 \<le> length pw \<and> connected d \<and>
              find (\<lambda>x. Some (user_email x) = Some em) (users d) = None \<and>
              alice = \<lparr>user_id = new_id env0, user_name = n, user_email = em,
                    user_password = bcrypt_hash pw (salt env0)\<rparr> \<longrightarrow>
              fst (post_api_users isEmail env0 d (Some n) (Some em) (Some pw)) =
                Reply 200 (Json_token t))" ..
  note r = big [THEN conjunct1]
  note u = big [THEN conjunct2, THEN conjunct1]
  note i = big [THEN conjunct2, THEN conjunct2, THEN conjunct1]
  note x = big [THEN conjunct2, THEN conjunct2, THEN conjunct2, THEN conjunct1]
  note v1 = big [THEN conjunct2, THEN conjunct2, THEN conjunct2, THEN conjunct2, THEN conjunct1]
  note v2 = big [THEN conjunct2, THEN conjunct2, THEN conjunct2, THEN conjunct2, THEN conjunct2,
                 THEN conjunct1]
  note lg = big [THEN conjunct2, THEN conjunct2, THEN conjunct2, THEN conjunct2, THEN conjunct2,
                 THEN conjunct2, THEN conjunct1]
  from i x k have e: "tok_iat t = 3000" "tok_exp t = 39000" by simp_all
  from v1 [rule_format, of 38999] e k
  have w1: "verify t ''k'' 38999 = Inr (user_id alice)" by simp
  from v2 [rule_format, of 39001] e k have w2: "verify t ''k'' 39001 = Inl Expired" by simp
  from lg [rule_format, of isEmail_at "Some ''alice@example.com''" db0 "''secret1''", OF l]
  have w3: "post_api_login isEmail_at env0 db0 (Some ''alice@example.com'')
      (Some (JStr ''secret1'')) = Reply 200 (Json_token t)"
    .
  from r u e w1 w2 w3
  have "\<exists>t. returnToken env0 alice = Inr (Reply 200 (Json_token t)) \<and>
        tok_user_id t = user_id alice \<and> tok_iat t = 3000 \<and> tok_exp t = 39000 \<and>
        verify t ''k'' 38999 = Inr (user_id alice) \<and>
        verify t ''k'' 39001 = Inl Expired \<and>
        post_api_login isEmail_at env0 db0 (Some ''alice@example.com'')
          (Some (JStr ''secret1'')) = Reply 200 (Json_token t)"
    by (intro exI [of _ t] conjI)
  with a show ?thesis by (rule conjI)
qed

subsection \<open>Login\<close>

text \<open>
  C10, as stated: every two failing login requests, one with an email that matches no
  stored user and one with a stored email and a wrong password, get the same reply with
  status 400. It fails in two ways. A request with an unknown email and no password field
  does not pass validation and is answered 422, while a stored email with a wrong
  password is answered 400. And with the password \<open>null\<close>, which passes validation, an
  unknown email is answered 400 while a stored email is answered 500, because
  \<open>bcrypt.compare\<close> rejects a password that is not a string.
\<close>

theorem login_failure_replies_differ:
  "find (\<lambda>x. Some (user_email x) = Some ''nobody@example.com'') (users db0) = None \<and>
   find (\<lambda>x. Some (user_email x) = Some ''alice@example.com'') (users db0) = Some alice \<and>
   \<not> bcrypt_compare ''wrong'' (user_password alice) \<and>
   post_api_login isEmail_at env0 db0 (Some ''nobody@example.com'') None =
     Reply 422 (Json_errors [Err ''A password is required!'' (Some ''password'')]) \<and>
   post_api_login isEmail_at env0 db0 (Some ''alice@example.com'') (Some (JStr ''wrong'')) =
     Reply 400 (Json_errors [Err ''Invaild email or password!'' None]) \<and>
   post_api_login isEmail_at env0 db0 (Some ''nobody@example.com'') (Some JNull) =
     Reply 400 (Json_errors [Err ''Invaild email or password!'' None]) \<and>
   post_api_login isEmail_at env0 db0 (Some ''alice@example.com'') (Some JNull) =
     Reply 500 (Text ''Server error'')"
  by (simp add: post_api_login_def valid_defs isEmail_at_def User_findOne_def
      server_error_def db0_def alice_def bob_def)

text \<open>
  C10, amended. For two login requests whose email is a well-formed email string and
  whose password is a string, with the store answering, one with an email that matches no
  stored user and one whose email finds a stored user but whose password does not match:
  the two replies are equal, 400 with the one message "Invaild email or password!".
\<close>

theorem login_failures_identical:
  assumes "email1 = Some em1" and "isEmail em1" and "password1 = Some (JStr pw1)"
    and "email2 = Some em2" and "isEmail em2" and "password2 = Some (JStr pw2)"
    and "connected d"
    and "find (\<lambda>x. user_email x = em1) (users d) = None"
    and "find (\<lambda>x. user_email x = em2) (users d) = Some u"
    and "\<not> bcrypt_compare pw2 (user_password u)"
  shows "post_api_login isEmail e d email1 password1 =
           post_api_login isEmail e d email2 password2 \<and>
         post_api_login isEmail e d email1 password1 =
           Reply 400 (Json_errors [Err ''Invaild email or password!'' None])"
  using assms by (simp add: post_api_login_def valid_defs User_findOne_def)

theorem login_failures_identical_witness:
  "isEmail_at ''nobody@example.com'' \<and> isEmail_at ''alice@example.com'' \<and>
   connected db0 \<and>
   find (\<lambda>x. user_email x = ''nobody@example.com'') (users db0) = None \<and>
   find (\<lambda>x. user_email x = ''alice@example.com'') (users db0) = Some alice \<and>
   \<not> bcrypt_compare ''wrong'' (user_password alice) \<and>
   post_api_login isEmail_at env0 db0 (Some ''nobody@example.com'') (Some (JStr ''x'')) =
     post_api_login isEmail_at env0 db0 (Some ''alice@example.com'') (Some (JStr ''wrong'')) \<and>
   post_api_login isEmail_at env0 db0 (Some ''nobody@example.com'') (Some (JStr ''x'')) =
     Reply 400 (Json_errors [Err ''Invaild email or password!'' None])"
proof -
  have v: "isEmail_at ''nobody@example.com''" "isEmail_at ''alice@example.com''"
    by (simp_all add: isEmail_at_def)
  have c: "connected db0" by (simp add: db0_def)
  have n: "find (\<lambda>x. user_email x = ''nobody@example.com'') (users db0) = None"
    by (simp add: db0_def alice_def bob_def)
  have s: "find (\<lambda>x. user_email x = ''alice@example.com'') (users db0) = Some alice"
    by (simp add: db0_def alice_def)
  have w: "\<not> bcrypt_compare ''wrong'' (user_password alice)" by (simp add: alice_def)
  from login_failures_identical [OF refl v(1) refl refl v(2) refl c n s w, of env0] v c n s w
  show ?thesis by blast
qed

end
